theory Spec2Isabelle
  imports Main
begin

section \<open>Data model\<close>

text \<open>
  The embedding follows \<^verbatim>\<open>src/src/index.ts\<close>. The interfaces that file imports
  (\<^verbatim>\<open>AuthTicket\<close>, \<^verbatim>\<open>Connection\<close>, \<^verbatim>\<open>GlucoseItem\<close>, \<^verbatim>\<open>GraphData\<close>,
  \<^verbatim>\<open>LoginResponse\<close>, \<^verbatim>\<open>Entry\<close>) are records holding the fields that
  \<^verbatim>\<open>index.ts\<close> reads or writes. JavaScript numbers that carry timestamps, statuses and
  glucose values are integers here. A property that may be \<^verbatim>\<open>undefined\<close> is an
  \<open>option\<close>.
\<close>

record AuthTicket =
  duration :: int
  expires :: "int option"
  token :: string

record GlucoseItem =
  FactoryTimestamp :: string
  ValueInMgPerDl :: int
  TrendArrow :: "int option"

record Connection =
  patientId :: string
  firstName :: string
  lastName :: string
  glucoseMeasurement :: GlucoseItem

record GraphData =
  connection :: Connection
  graphData :: "GlucoseItem list"

text \<open>A Nightscout entry; \<open>direction = None\<close> is an entry without the property.\<close>

record Entry =
  date :: int
  direction :: "string option"
  sgv :: int

text \<open>
  The body of the login response: \<open>user_id\<close> is \<^verbatim>\<open>data.user.id\<close>, \<open>None\<close> when the
  response carries no \<^verbatim>\<open>user\<close> object; \<open>authTicket_data\<close> is \<^verbatim>\<open>data.authTicket\<close>.
\<close>

record LoginData =
  redirect :: bool
  region :: "string option"
  user_id :: "string option"
  authTicket_data :: "AuthTicket option"

record LoginResponse =
  status :: int
  data :: "LoginData option"

text \<open>
  The outcome of the statements of a \<^verbatim>\<open>try\<close> block around a request. \<open>Failed\<close>: they
  raise (the request is rejected, or the response interceptor has handed back the error
  object, which has no \<^verbatim>\<open>data\<close>, so that reading \<^verbatim>\<open>response.data.\<close>\<open>\<dots>\<close> raises).
  \<open>Reply x\<close>: the body \<open>x\<close> was read.
\<close>

datatype 'a reply = Failed | Reply 'a

text \<open>
  The two headers that depend on the session. The \<^verbatim>\<open>account-id\<close> header is the SHA-256
  hex digest of the user id; the record keeps the string that is hashed.
\<close>

record headers =
  Authorization :: string
  account_id_hashed :: string

text \<open>
  What a cycle does to the outside: the requests it sends and the lines it logs, in order.
  A log line is recorded with its level and the constant text that begins its message, up
  to the first interpolated value (a quote character right before that value is left out).
\<close>

datatype api_call =
    PostLogin
  | GetConnections headers
  | GetGraph string headers
  | LastEntry
  | UploadEntries "Entry list"

datatype level = Debug | Info | Warn | Error

datatype event = Call api_call | Log level string

fun calls :: "event list \<Rightarrow> api_call list" where
  "calls [] = []"
| "calls (Call c # es) = c # calls es"
| "calls (Log l m # es) = calls es"

text \<open>The configuration fields read by the functions below.\<close>

record config =
  linkUpConnection :: "string option"
  allData :: bool

text \<open>
  Everything a cycle reads from outside the module: the clock (\<^verbatim>\<open>Date.now()\<close>, in
  milliseconds), the configuration, the answers of the LibreLink Up API and of the
  Nightscout client. \<open>uploadEntries w es\<close> is \<open>True\<close> when the upload of \<open>es\<close> resolves
  and \<open>False\<close> when it rejects.
\<close>

record world =
  now :: int
  readConfig :: config
  loginReply :: "LoginResponse reply"
  connectionsReply :: "headers \<Rightarrow> Connection list reply"
  graphReply :: "string \<Rightarrow> headers \<Rightarrow> GraphData option reply"
  lastEntry :: "Entry option reply"
  uploadEntries :: "Entry list \<Rightarrow> bool"

text \<open>
  The helpers of \<^verbatim>\<open>./helpers/helpers\<close> are not part of the sources at hand; they are
  parameters of the model.
\<close>

record helpers =
  getUtcDateFromString :: "string \<Rightarrow> int"
  mapTrendArrow :: "int option \<Rightarrow> string"

text \<open>The module-level variables \<^verbatim>\<open>authTicket\<close> and \<^verbatim>\<open>userId\<close>.\<close>

record session =
  authTicket :: AuthTicket
  userId :: string

datatype error = LastEntryRejected

section \<open>Session cache\<close>

definition deleteAuthTicket :: "session \<Rightarrow> session" where
  "deleteAuthTicket s = s\<lparr>authTicket := \<lparr>duration = 0, expires = Some 0, token = ''''\<rparr>\<rparr>"

definition updateAuthTicket :: "AuthTicket \<Rightarrow> session \<Rightarrow> session" where
  "updateAuthTicket newAuthTicket s = s\<lparr>authTicket := newAuthTicket\<rparr>"

definition deleteAccountId :: "session \<Rightarrow> session" where
  "deleteAccountId s = s\<lparr>userId := ''''\<rparr>"

definition updateAccountId :: "string \<Rightarrow> session \<Rightarrow> session" where
  "updateAccountId newUserId s = s\<lparr>userId := newUserId\<rparr>"

definition getUserId :: "session \<Rightarrow> string" where
  "getUserId s = userId s"

definition getAuthenticationToken :: "session \<Rightarrow> string option \<times> event list" where
  "getAuthenticationToken s =
     (if token (authTicket s) \<noteq> '''' then (Some (token (authTicket s)), [])
      else (None, [Log Warn ''No authTicket.token found'']))"

text \<open>
  \<^verbatim>\<open>"Bearer " + null\<close> is \<^verbatim>\<open>"Bearer null"\<close>. The variable \<^verbatim>\<open>authTicket\<close> always
  holds an object, so the \<^verbatim>\<open>account-id\<close> header is always set.
\<close>

definition getLluAuthHeaders :: "session \<Rightarrow> headers \<times> event list" where
  "getLluAuthHeaders s =
     (let (tok, ev) = getAuthenticationToken s;
          authenticatedHeaders =
            \<lparr>Authorization = ''Bearer '' @ (case tok of None \<Rightarrow> ''null'' | Some t \<Rightarrow> t),
             account_id_hashed = getUserId s\<rparr>
      in (authenticatedHeaders, ev @ [Log Debug ''Authenticated headers: '']))"

text \<open>\<open>t\<close> is \<^verbatim>\<open>Date.now()\<close>; \<open>div\<close> on \<open>int\<close> rounds down, as \<^verbatim>\<open>Math.floor\<close> does.\<close>

definition hasValidAuthentication :: "int \<Rightarrow> session \<Rightarrow> bool \<times> event list" where
  "hasValidAuthentication t s =
     (case expires (authTicket s) of
        Some e \<Rightarrow> (let currentTime = t div 1000 in (currentTime < e, []))
      | None \<Rightarrow> (False, [Log Info ''authTicket.expires is undefined'']))"

section \<open>Login\<close>

text \<open>
  \<^verbatim>\<open>login\<close>, lines 117 to 154. Anything raised inside the \<^verbatim>\<open>try\<close> block ends in the
  \<^verbatim>\<open>catch\<close>: a failed request, a body without \<^verbatim>\<open>data\<close> (reading
  \<^verbatim>\<open>data.redirect\<close> raises) and a body without \<^verbatim>\<open>user\<close> (reading \<^verbatim>\<open>user.id\<close>
  raises). A region is truthy when it is present and not the empty string.
\<close>

definition login :: "world \<Rightarrow> session \<Rightarrow> AuthTicket option \<times> session \<times> event list" where
  "login w s =
     (case loginReply w of
        Failed \<Rightarrow> (None, s, [Call PostLogin, Log Error ''Invalid credentials''])
      | Reply response \<Rightarrow>
          if status response \<noteq> 0 then
            (None, s, [Call PostLogin, Log Error ''LibreLink Up - Non-zero status code: ''])
          else
            (case data response of
               None \<Rightarrow> (None, s, [Call PostLogin, Log Error ''Invalid credentials''])
             | Some d \<Rightarrow>
                 if redirect d = True \<and> region d \<noteq> None \<and> region d \<noteq> Some '''' then
                   (None, s,
                    [Call PostLogin,
                     Log Error ''LibreLink Up - Logged in to the wrong region. Switch to ''])
                 else
                   (case user_id d of
                      None \<Rightarrow>
                        (None, s,
                         [Call PostLogin, Log Info ''Logged in to LibreLink Up'',
                          Log Error ''Invalid credentials''])
                    | Some newUserId \<Rightarrow>
                        (authTicket_data d, updateAccountId newUserId s,
                         [Call PostLogin, Log Info ''Logged in to LibreLink Up'']))))"

section \<open>Connection resolution and measurement fetching\<close>

definition dumpConnectionData :: "Connection list \<Rightarrow> event list" where
  "dumpConnectionData connectionData =
     Log Debug ''Found '' # map (\<lambda>entry. Log Debug ''['') connectionData"

definition logPickedUpConnection :: "Connection \<Rightarrow> event list" where
  "logPickedUpConnection c = [Log Info ''-> Using connection: '']"

text \<open>
  \<^verbatim>\<open>getLibreLinkUpConnection\<close>, lines 182 to 232. The headers are built, with their log
  lines, before the request is sent. \<^verbatim>\<open>!config.linkUpConnection\<close> holds for an unset and
  for an empty value. \<open>find\<close> returns the first entry that satisfies the test.
\<close>

definition getLibreLinkUpConnection :: "world \<Rightarrow> session \<Rightarrow> string option \<times> session \<times> event list" where
  "getLibreLinkUpConnection w s =
     (let (h, evh) = getLluAuthHeaders s;
          sent = evh @ [Call (GetConnections h)]
      in case connectionsReply w h of
           Failed \<Rightarrow>
             (None, deleteAccountId (deleteAuthTicket s),
              sent @ [Log Error ''getting libreLinkUpConnection: ''])
         | Reply connectionData \<Rightarrow>
             if length connectionData = 0 then
               (None, s, sent @ [Log Error ''No LibreLink Up connection found''])
             else if length connectionData = 1 then
               (Some (patientId (connectionData ! 0)), s,
                sent @ [Log Info ''Found 1 LibreLink Up connection.'']
                  @ logPickedUpConnection (connectionData ! 0))
             else if linkUpConnection (readConfig w) = None
                     \<or> linkUpConnection (readConfig w) = Some '''' then
               (Some (patientId (connectionData ! 0)), s,
                sent @ dumpConnectionData connectionData
                  @ [Log Warn ''LINK_UP_CONNECTION not specified, using first one found.'']
                  @ logPickedUpConnection (connectionData ! 0))
             else
               (case find (\<lambda>entry. Some (patientId entry) = linkUpConnection (readConfig w))
                       connectionData of
                  None \<Rightarrow>
                    (None, s,
                     sent @ dumpConnectionData connectionData
                       @ [Log Error ''The specified Patient-ID was not found.''])
                | Some c \<Rightarrow>
                    (Some (patientId c), s,
                     sent @ dumpConnectionData connectionData @ logPickedUpConnection c)))"

text \<open>
  \<^verbatim>\<open>getGlucoseMeasurements\<close>, lines 156 to 180. \<^verbatim>\<open>!connectionId\<close> holds for
  \<^verbatim>\<open>null\<close> and for the empty string. A body without \<^verbatim>\<open>data\<close> is returned as it is
  (\<open>Reply None\<close>).
\<close>

definition getGlucoseMeasurements :: "world \<Rightarrow> session \<Rightarrow> GraphData option \<times> session \<times> event list" where
  "getGlucoseMeasurements w s =
     (let (connectionId, s1, ev1) = getLibreLinkUpConnection w s
      in case connectionId of
           None \<Rightarrow> (None, s1, ev1)
         | Some cid \<Rightarrow>
             if cid = '''' then (None, s1, ev1)
             else
               (let (h, evh) = getLluAuthHeaders s1;
                    sent = ev1 @ evh @ [Call (GetGraph cid h)]
                in case graphReply w cid h of
                     Failed \<Rightarrow>
                       (None, deleteAccountId (deleteAuthTicket s1),
                        sent @ [Log Error ''Error getting glucose measurements''])
                   | Reply d \<Rightarrow> (d, s1, sent)))"

section \<open>Formatting and upload\<close>

text \<open>The test of lines 244 and 254: no watermark, or a date strictly after it.\<close>

definition isNewer :: "Entry option \<Rightarrow> int \<Rightarrow> bool" where
  "isNewer le d = (case le of None \<Rightarrow> True | Some l \<Rightarrow> d > date l)"

text \<open>The body of the \<^verbatim>\<open>forEach\<close> callback, lines 253 to 259.\<close>

definition pushGraphEntry :: "helpers \<Rightarrow> Entry option \<Rightarrow> Entry list \<Rightarrow> GlucoseItem \<Rightarrow> Entry list" where
  "pushGraphEntry hp le formattedMeasurements entry =
     (let entryDate = getUtcDateFromString hp (FactoryTimestamp entry)
      in if isNewer le entryDate then
           formattedMeasurements @
             [\<lparr>date = entryDate, direction = None, sgv = ValueInMgPerDl entry\<rparr>]
         else formattedMeasurements)"

text \<open>Lines 240 to 262, once the watermark \<open>le\<close> is known.\<close>

definition formatWith :: "helpers \<Rightarrow> Entry option \<Rightarrow> GraphData \<Rightarrow> Entry list" where
  "formatWith hp le measurementData =
     (let glucoseMeasurement_c = glucoseMeasurement (connection measurementData);
          measurementDate = getUtcDateFromString hp (FactoryTimestamp glucoseMeasurement_c);
          formattedMeasurements =
            (if isNewer le measurementDate then
               [\<lparr>date = measurementDate,
                 direction = Some (mapTrendArrow hp (TrendArrow glucoseMeasurement_c)),
                 sgv = ValueInMgPerDl glucoseMeasurement_c\<rparr>]
             else [])
      in foldl (pushGraphEntry hp le) formattedMeasurements (graphData measurementData))"

text \<open>
  \<^verbatim>\<open>createFormattedMeasurements\<close>, lines 238 to 263. With \<^verbatim>\<open>config.allData\<close> the
  watermark is \<^verbatim>\<open>null\<close> and the Nightscout client is not asked. The call of
  \<^verbatim>\<open>lastEntry\<close> is outside every \<^verbatim>\<open>try\<close>: when it rejects, so does this function.
\<close>

definition createFormattedMeasurements :: "helpers \<Rightarrow> world \<Rightarrow> GraphData \<Rightarrow> (error + Entry list) \<times> event list" where
  "createFormattedMeasurements hp w measurementData =
     (if allData (readConfig w) then (Inr (formatWith hp None measurementData), [])
      else
        (case lastEntry w of
           Failed \<Rightarrow> (Inl LastEntryRejected, [Call LastEntry])
         | Reply le \<Rightarrow> (Inr (formatWith hp le measurementData), [Call LastEntry])))"

text \<open>\<^verbatim>\<open>uploadToNightScout\<close>, lines 265 to 279.\<close>

definition uploadToNightScout :: "helpers \<Rightarrow> world \<Rightarrow> GraphData \<Rightarrow> (error + unit) \<times> event list" where
  "uploadToNightScout hp w measurementData =
     (case createFormattedMeasurements hp w measurementData of
        (Inl e, ev) \<Rightarrow> (Inl e, ev)
      | (Inr formattedMeasurements, ev) \<Rightarrow>
          if length formattedMeasurements > 0 then
            (Inr (),
             ev @ [Log Info ''Uploading '', Call (UploadEntries formattedMeasurements)]
                @ (if uploadEntries w formattedMeasurements then [Log Info ''Upload successful'']
                   else [Log Error ''Upload to NightScout failed'']))
          else (Inr (), ev @ [Log Info ''No new measurements to upload'']))"

section \<open>The cycle\<close>

text \<open>Lines 108 to 114 of \<^verbatim>\<open>main\<close>: what follows the authentication block.\<close>

definition fetchAndUpload :: "helpers \<Rightarrow> world \<Rightarrow> session \<Rightarrow> (error + unit) \<times> session \<times> event list" where
  "fetchAndUpload hp w s =
     (let (glucoseGraphData, s1, ev1) = getGlucoseMeasurements w s
      in case glucoseGraphData of
           None \<Rightarrow> (Inr (), s1, ev1)
         | Some g \<Rightarrow>
             (let (r, ev2) = uploadToNightScout hp w g in (r, s1, ev1 @ ev2)))"

text \<open>
  Lines 94 to 106 of \<^verbatim>\<open>main\<close>: the authentication block. The first component tells
  whether the cycle goes on (\<open>False\<close> is the \<^verbatim>\<open>return\<close> of line 103); the second is
  the session the block leaves.
\<close>

definition authenticate :: "world \<Rightarrow> session \<Rightarrow> bool \<times> session \<times> event list" where
  "authenticate w s =
     (let (valid, ev0) = hasValidAuthentication (now w) s
      in if \<not> valid then
           (let s1 = deleteAccountId (deleteAuthTicket s);
                (newAuthTicket, s2, ev1) = login w s1;
                evl = ev0 @ [Log Info ''renew token''] @ ev1
            in case newAuthTicket of
                 None \<Rightarrow>
                   (False, deleteAccountId (deleteAuthTicket s2),
                    evl @ [Log Error
                      ''LibreLink Up - No AuthTicket received. Please check your credentials.''])
               | Some t \<Rightarrow> (True, updateAuthTicket t s2, evl))
         else (True, s, ev0))"

text \<open>
  \<^verbatim>\<open>main\<close>, lines 93 to 115: one cycle, from the session \<open>s\<close> left by the cycle before.
  The result is \<open>Inl\<close> when the promise of \<^verbatim>\<open>main\<close> rejects.
\<close>

definition main :: "helpers \<Rightarrow> world \<Rightarrow> session \<Rightarrow> (error + unit) \<times> session \<times> event list" where
  "main hp w s =
     (let (authenticated, s1, ev1) = authenticate w s
      in if \<not> authenticated then (Inr (), s1, ev1)
         else (let (r, s2, ev2) = fetchAndUpload hp w s1 in (r, s2, ev1 @ ev2)))"

text \<open>The two components of the result of a cycle that the properties speak about.\<close>

definition session_after :: "(error + unit) \<times> session \<times> event list \<Rightarrow> session" where
  "session_after r = fst (snd r)"

definition events_of :: "(error + unit) \<times> session \<times> event list \<Rightarrow> event list" where
  "events_of r = snd (snd r)"

section \<open>Reading the events of a cycle\<close>

fun isUploadEntries :: "api_call \<Rightarrow> bool" where
  "isUploadEntries (UploadEntries es) = True"
| "isUploadEntries c = False"

text \<open>The requests that follow connection resolution: graph fetch, watermark, upload.\<close>

fun isFetchOrUpload :: "api_call \<Rightarrow> bool" where
  "isFetchOrUpload (GetGraph cid h) = True"
| "isFetchOrUpload LastEntry = True"
| "isFetchOrUpload (UploadEntries es) = True"
| "isFetchOrUpload c = False"

text \<open>
  A request of the fetch stage fails, with the session \<open>s\<close>: the \<^verbatim>\<open>catch\<close> block of
  \<^verbatim>\<open>getLibreLinkUpConnection\<close> runs (the connections request fails), or a patient is
  resolved and the \<^verbatim>\<open>catch\<close> block of \<^verbatim>\<open>getGlucoseMeasurements\<close> runs (the graph
  request fails).
\<close>

definition fetchFailure :: "world \<Rightarrow> session \<Rightarrow> bool" where
  "fetchFailure w s =
     (let h = fst (getLluAuthHeaders s)
      in connectionsReply w h = Failed
         \<or> (case fst (getLibreLinkUpConnection w s) of
               None \<Rightarrow> False
             | Some cid \<Rightarrow> cid \<noteq> '''' \<and> graphReply w cid h = Failed))"

section \<open>Example inputs\<close>

text \<open>
  Concrete helpers, readings and a world on which the properties below are evaluated. The
  example date helper reads three named timestamps.
\<close>

definition exampleUtc :: "string \<Rightarrow> int" where
  "exampleUtc ts = (case map_of [(''t90'', 90), (''t100'', 100), (''t150'', 150)] ts of
                      Some t \<Rightarrow> t | None \<Rightarrow> 0)"

definition exampleArrow :: "int option \<Rightarrow> string" where
  "exampleArrow a = (if a = Some 3 then ''Flat'' else ''NOT COMPUTABLE'')"

definition exampleHelpers :: helpers where
  "exampleHelpers = \<lparr>getUtcDateFromString = exampleUtc, mapTrendArrow = exampleArrow\<rparr>"

definition item :: "string \<Rightarrow> int \<Rightarrow> int option \<Rightarrow> GlucoseItem" where
  "item ts v a = \<lparr>FactoryTimestamp = ts, ValueInMgPerDl = v, TrendArrow = a\<rparr>"

definition patient :: "string \<Rightarrow> GlucoseItem \<Rightarrow> Connection" where
  "patient p m = \<lparr>patientId = p, firstName = ''Ana'', lastName = ''Silva'', glucoseMeasurement = m\<rparr>"

definition exampleGraph :: GraphData where
  "exampleGraph = \<lparr>connection = patient ''p1'' (item ''t150'' 120 (Some 3)),
                   graphData = [item ''t90'' 100 None, item ''t100'' 110 None]\<rparr>"

definition exampleWorld :: world where
  "exampleWorld =
     \<lparr>now = 1700000000000,
      readConfig = \<lparr>linkUpConnection = None, allData = False\<rparr>,
      loginReply = Reply \<lparr>status = 0, data = Some \<lparr>redirect = False, region = None,
         user_id = Some ''user-1'',
         authTicket_data = Some \<lparr>duration = 3600, expires = Some 1700003600, token = ''tok''\<rparr>\<rparr>\<rparr>,
      connectionsReply = (\<lambda>h. Reply [patient ''p1'' (item ''t150'' 120 (Some 3))]),
      graphReply = (\<lambda>cid h. Reply (Some exampleGraph)),
      lastEntry = Reply (Some \<lparr>date = 100, direction = None, sgv = 110\<rparr>),
      uploadEntries = (\<lambda>es. True)\<rparr>"

definition exampleSession :: session where
  "exampleSession =
     \<lparr>authTicket = \<lparr>duration = 3600, expires = Some 1700003600, token = ''tok''\<rparr>,
      userId = ''user-1''\<rparr>"

text \<open>The session after \<^verbatim>\<open>deleteAuthTicket\<close> and \<^verbatim>\<open>deleteAccountId\<close>.\<close>

definition emptySession :: session where
  "emptySession = \<lparr>authTicket = \<lparr>duration = 0, expires = Some 0, token = ''''\<rparr>, userId = ''''\<rparr>"

definition duplicateGraph :: GraphData where
  "duplicateGraph = \<lparr>connection = patient ''p1'' (item ''t150'' 120 (Some 3)),
                     graphData = [item ''t100'' 110 None, item ''t150'' 120 None]\<rparr>"


definition failingConnectionsWorld :: world where
  "failingConnectionsWorld = exampleWorld\<lparr>connectionsReply := (\<lambda>h. Failed)\<rparr>"

definition failingGraphWorld :: world where
  "failingGraphWorld = exampleWorld\<lparr>graphReply := (\<lambda>cid h. Failed)\<rparr>"

definition noConnectionsWorld :: world where
  "noConnectionsWorld = exampleWorld\<lparr>connectionsReply := (\<lambda>h. Reply [])\<rparr>"

definition twoPatients :: "Connection list" where
  "twoPatients = [patient ''p1'' (item ''t150'' 120 (Some 3)), patient ''p2'' (item ''t100'' 95 (Some 4))]"

definition unmatchedWorld :: world where
  "unmatchedWorld =
     exampleWorld\<lparr>readConfig := \<lparr>linkUpConnection = Some ''p9'', allData = False\<rparr>,
                  connectionsReply := (\<lambda>h. Reply twoPatients)\<rparr>"

definition twoPatientsWorld :: world where
  "twoPatientsWorld = exampleWorld\<lparr>connectionsReply := (\<lambda>h. Reply twoPatients)\<rparr>"

definition matchedWorld :: world where
  "matchedWorld =
     exampleWorld\<lparr>readConfig := \<lparr>linkUpConnection = Some ''p2'', allData = False\<rparr>,
                  connectionsReply := (\<lambda>h. Reply twoPatients)\<rparr>"

definition otherIdWorld :: world where
  "otherIdWorld = exampleWorld\<lparr>readConfig := \<lparr>linkUpConnection = Some ''p9'', allData = False\<rparr>\<rparr>"


definition failingUploadWorld :: world where
  "failingUploadWorld = exampleWorld\<lparr>uploadEntries := (\<lambda>es. False)\<rparr>"


section \<open>Auxiliary facts\<close>

lemma calls_append: "calls (xs @ ys) = calls xs @ calls ys"
  by (induction xs rule: calls.induct) simp_all

lemma foldl_pushGraphEntry:
  "foldl (pushGraphEntry hp le) acc xs =
     acc @ map (\<lambda>e. \<lparr>date = getUtcDateFromString hp (FactoryTimestamp e), direction = None,
                      sgv = ValueInMgPerDl e\<rparr>)
            (filter (\<lambda>e. isNewer le (getUtcDateFromString hp (FactoryTimestamp e))) xs)"
  by (induction xs arbitrary: acc) (simp_all add: pushGraphEntry_def Let_def)

lemma formatWith_eq:
  "formatWith hp le g =
     (if isNewer le (getUtcDateFromString hp (FactoryTimestamp (glucoseMeasurement (connection g))))
      then [\<lparr>date = getUtcDateFromString hp (FactoryTimestamp (glucoseMeasurement (connection g))),
             direction = Some (mapTrendArrow hp (TrendArrow (glucoseMeasurement (connection g)))),
             sgv = ValueInMgPerDl (glucoseMeasurement (connection g))\<rparr>]
      else [])
     @ map (\<lambda>e. \<lparr>date = getUtcDateFromString hp (FactoryTimestamp e), direction = None,
                  sgv = ValueInMgPerDl e\<rparr>)
         (filter (\<lambda>e. isNewer le (getUtcDateFromString hp (FactoryTimestamp e))) (graphData g))"
  by (simp add: formatWith_def Let_def foldl_pushGraphEntry)

lemma createFormattedMeasurements_calls:
  "filter isUploadEntries (calls (snd (createFormattedMeasurements hp w g))) = []"
  by (simp add: createFormattedMeasurements_def split: reply.splits)

lemma calls_dumpConnectionData: "calls (dumpConnectionData cs) = []"
  by (induction cs) (simp_all add: dumpConnectionData_def)

lemma calls_getLluAuthHeaders: "calls (snd (getLluAuthHeaders s)) = []"
  by (simp add: getLluAuthHeaders_def getAuthenticationToken_def)

lemma calls_hasValidAuthentication: "calls (snd (hasValidAuthentication t s)) = []"
  by (simp add: hasValidAuthentication_def split: option.splits)

lemma calls_login: "calls (snd (snd (login w s))) = [PostLogin]"
  by (simp add: login_def split: reply.splits option.splits)

lemma calls_getLibreLinkUpConnection:
  "calls (snd (snd (getLibreLinkUpConnection w s))) = [GetConnections (fst (getLluAuthHeaders s))]"
proof -
  obtain h evh where h: "getLluAuthHeaders s = (h, evh)"
    by (cases "getLluAuthHeaders s")
  have evh: "calls evh = []"
    using calls_getLluAuthHeaders [of s] by (simp add: h)
  show ?thesis
    by (simp add: getLibreLinkUpConnection_def Let_def h evh calls_append calls_dumpConnectionData
          logPickedUpConnection_def split: reply.splits option.splits)
qed

lemma session_getLibreLinkUpConnection:
  "fst (snd (getLibreLinkUpConnection w s)) =
     (if connectionsReply w (fst (getLluAuthHeaders s)) = Failed
      then deleteAccountId (deleteAuthTicket s) else s)"
  by (cases "getLluAuthHeaders s")
     (simp add: getLibreLinkUpConnection_def Let_def split: reply.splits option.splits)

lemma failed_getLibreLinkUpConnection:
  "connectionsReply w (fst (getLluAuthHeaders s)) = Failed \<Longrightarrow>
     fst (getLibreLinkUpConnection w s) = None"
  by (cases "getLluAuthHeaders s") (simp add: getLibreLinkUpConnection_def Let_def)

lemma find_patient_member:
  "t \<in> patientId ` set cs \<Longrightarrow>
     \<exists>c. find (\<lambda>entry. Some (patientId entry) = Some t) cs = Some c \<and> patientId c = t"
  by (induction cs) auto

lemma find_patient_absent:
  "t \<notin> patientId ` set cs \<Longrightarrow> find (\<lambda>entry. Some (patientId entry) = Some t) cs = None"
  by (induction cs) auto

lemma getLibreLinkUpConnection_result:
  assumes "connectionsReply w (fst (getLluAuthHeaders s)) = Reply cs"
  shows "fst (getLibreLinkUpConnection w s) =
     (if cs = [] then None
      else if length cs = 1 then Some (patientId (hd cs))
      else if linkUpConnection (readConfig w) = None \<or> linkUpConnection (readConfig w) = Some ''''
        then Some (patientId (hd cs))
      else if the (linkUpConnection (readConfig w)) \<in> patientId ` set cs
        then linkUpConnection (readConfig w)
      else None)"
proof -
  obtain h evh where h: "getLluAuthHeaders s = (h, evh)"
    by (cases "getLluAuthHeaders s")
  have r: "connectionsReply w h = Reply cs"
    using assms by (simp add: h)
  show ?thesis
  proof (cases "linkUpConnection (readConfig w)")
    case None
    then show ?thesis
      by (simp add: getLibreLinkUpConnection_def h r hd_conv_nth)
  next
    case (Some t)
    show ?thesis
    proof (cases "t \<in> patientId ` set cs")
      case True
      from find_patient_member [OF this] obtain c
        where "find (\<lambda>entry. Some (patientId entry) = Some t) cs = Some c" "patientId c = t"
        by blast
      with Some True show ?thesis
        by (simp add: getLibreLinkUpConnection_def h r hd_conv_nth)
    next
      case False
      from find_patient_absent [OF this] Some False show ?thesis
        by (simp add: getLibreLinkUpConnection_def h r hd_conv_nth)
    qed
  qed
qed

lemma cleared_session: "deleteAccountId (deleteAuthTicket s) = emptySession"
  by (simp add: deleteAccountId_def deleteAuthTicket_def emptySession_def)

lemma getGlucoseMeasurements_connections_failed:
  assumes "connectionsReply w (fst (getLluAuthHeaders s)) = Failed"
  shows "fst (getGlucoseMeasurements w s) = None"
    and "fst (snd (getGlucoseMeasurements w s)) = emptySession"
    and "calls (snd (snd (getGlucoseMeasurements w s))) = [GetConnections (fst (getLluAuthHeaders s))]"
proof -
  obtain r s1 ev1 where c: "getLibreLinkUpConnection w s = (r, s1, ev1)"
    by (cases "getLibreLinkUpConnection w s")
  have r: "r = None"
    using failed_getLibreLinkUpConnection [OF assms] by (simp add: c)
  have s1: "s1 = emptySession"
    using session_getLibreLinkUpConnection [of w s] assms by (simp add: c cleared_session)
  have ev1: "calls ev1 = [GetConnections (fst (getLluAuthHeaders s))]"
    using calls_getLibreLinkUpConnection [of w s] by (simp add: c)
  show "fst (getGlucoseMeasurements w s) = None"
    by (simp add: getGlucoseMeasurements_def c r)
  show "fst (snd (getGlucoseMeasurements w s)) = emptySession"
    by (simp add: getGlucoseMeasurements_def c r s1)
  show "calls (snd (snd (getGlucoseMeasurements w s))) = [GetConnections (fst (getLluAuthHeaders s))]"
    by (simp add: getGlucoseMeasurements_def c r ev1)
qed

lemma getGlucoseMeasurements_no_patient:
  assumes "connectionsReply w (fst (getLluAuthHeaders s)) \<noteq> Failed"
    and "fst (getLibreLinkUpConnection w s) = None \<or> fst (getLibreLinkUpConnection w s) = Some ''''"
  shows "fst (getGlucoseMeasurements w s) = None"
    and "fst (snd (getGlucoseMeasurements w s)) = s"
    and "calls (snd (snd (getGlucoseMeasurements w s))) = [GetConnections (fst (getLluAuthHeaders s))]"
proof -
  obtain r s1 ev1 where c: "getLibreLinkUpConnection w s = (r, s1, ev1)"
    by (cases "getLibreLinkUpConnection w s")
  have r: "r = None \<or> r = Some ''''"
    using assms(2) by (simp add: c)
  have s1: "s1 = s"
    using session_getLibreLinkUpConnection [of w s] assms(1) by (simp add: c)
  have ev1: "calls ev1 = [GetConnections (fst (getLluAuthHeaders s))]"
    using calls_getLibreLinkUpConnection [of w s] by (simp add: c)
  show "fst (getGlucoseMeasurements w s) = None"
    using r by (auto simp add: getGlucoseMeasurements_def c)
  show "fst (snd (getGlucoseMeasurements w s)) = s"
    using r by (auto simp add: getGlucoseMeasurements_def c s1)
  show "calls (snd (snd (getGlucoseMeasurements w s))) = [GetConnections (fst (getLluAuthHeaders s))]"
    using r by (auto simp add: getGlucoseMeasurements_def c ev1)
qed

lemma getGlucoseMeasurements_graph:
  assumes "connectionsReply w (fst (getLluAuthHeaders s)) \<noteq> Failed"
    and "fst (getLibreLinkUpConnection w s) = Some cid" and "cid \<noteq> ''''"
  shows "fst (getGlucoseMeasurements w s) =
           (case graphReply w cid (fst (getLluAuthHeaders s)) of Failed \<Rightarrow> None | Reply d \<Rightarrow> d)"
    and "fst (snd (getGlucoseMeasurements w s)) =
           (if graphReply w cid (fst (getLluAuthHeaders s)) = Failed then emptySession else s)"
    and "calls (snd (snd (getGlucoseMeasurements w s))) =
           [GetConnections (fst (getLluAuthHeaders s)), GetGraph cid (fst (getLluAuthHeaders s))]"
proof -
  obtain r s1 ev1 where c: "getLibreLinkUpConnection w s = (r, s1, ev1)"
    by (cases "getLibreLinkUpConnection w s")
  obtain h evh where h: "getLluAuthHeaders s = (h, evh)"
    by (cases "getLluAuthHeaders s")
  have evh: "calls evh = []"
    using calls_getLluAuthHeaders [of s] by (simp add: h)
  have r: "r = Some cid"
    using assms(2) by (simp add: c)
  have s1: "s1 = s"
    using session_getLibreLinkUpConnection [of w s] assms(1) by (simp add: c)
  have ev1: "calls ev1 = [GetConnections h]"
    using calls_getLibreLinkUpConnection [of w s] by (simp add: c h)
  show "fst (getGlucoseMeasurements w s) =
           (case graphReply w cid (fst (getLluAuthHeaders s)) of Failed \<Rightarrow> None | Reply d \<Rightarrow> d)"
    using assms(3) by (simp add: getGlucoseMeasurements_def c r s1 h Let_def split: reply.splits)
  show "fst (snd (getGlucoseMeasurements w s)) =
           (if graphReply w cid (fst (getLluAuthHeaders s)) = Failed then emptySession else s)"
    using assms(3)
    by (simp add: getGlucoseMeasurements_def c r s1 h Let_def cleared_session split: reply.splits)
  show "calls (snd (snd (getGlucoseMeasurements w s))) =
           [GetConnections (fst (getLluAuthHeaders s)), GetGraph cid (fst (getLluAuthHeaders s))]"
    using assms(3)
    by (simp add: getGlucoseMeasurements_def c r s1 h Let_def calls_append ev1 evh
          split: reply.splits)
qed

lemma getGlucoseMeasurements_Some_session:
  assumes "fst (getGlucoseMeasurements w s) = Some g"
  shows "fst (snd (getGlucoseMeasurements w s)) = s"
    and "filter isUploadEntries (calls (snd (snd (getGlucoseMeasurements w s)))) = []"
proof -
  let ?h = "fst (getLluAuthHeaders s)"
  have nf: "connectionsReply w ?h \<noteq> Failed"
    using getGlucoseMeasurements_connections_failed(1) [of w s] assms by auto
  have "\<not> (fst (getLibreLinkUpConnection w s) = None \<or> fst (getLibreLinkUpConnection w s) = Some '''')"
  proof
    assume "fst (getLibreLinkUpConnection w s) = None \<or> fst (getLibreLinkUpConnection w s) = Some ''''"
    from getGlucoseMeasurements_no_patient(1) [OF nf this] assms show False
      by simp
  qed
  then obtain cid where cid: "fst (getLibreLinkUpConnection w s) = Some cid" "cid \<noteq> ''''"
    by (cases "fst (getLibreLinkUpConnection w s)") auto
  note gg = getGlucoseMeasurements_graph [OF nf cid]
  have "graphReply w cid ?h \<noteq> Failed"
    using gg(1) assms by auto
  then show "fst (snd (getGlucoseMeasurements w s)) = s"
    using gg(2) by simp
  show "filter isUploadEntries (calls (snd (snd (getGlucoseMeasurements w s)))) = []"
    by (simp add: gg(3))
qed


lemma main_authenticated:
  "authenticate w s = (True, s1, ev1) \<Longrightarrow>
     main hp w s = (fst (fetchAndUpload hp w s1), fst (snd (fetchAndUpload hp w s1)),
                    ev1 @ snd (snd (fetchAndUpload hp w s1)))"
  by (simp add: main_def split: prod.splits)

lemma fetchAndUpload_None:
  "fst (getGlucoseMeasurements w s) = None \<Longrightarrow>
     fetchAndUpload hp w s =
       (Inr (), fst (snd (getGlucoseMeasurements w s)), snd (snd (getGlucoseMeasurements w s)))"
  by (cases "getGlucoseMeasurements w s") (simp add: fetchAndUpload_def)

lemma fetchAndUpload_Some:
  "fst (getGlucoseMeasurements w s) = Some g \<Longrightarrow>
     fetchAndUpload hp w s =
       (fst (uploadToNightScout hp w g), fst (snd (getGlucoseMeasurements w s)),
        snd (snd (getGlucoseMeasurements w s)) @ snd (uploadToNightScout hp w g))"
  by (cases "getGlucoseMeasurements w s") (simp add: fetchAndUpload_def split: prod.splits)

lemma not_valid_emptySession: "0 \<le> t \<Longrightarrow> \<not> fst (hasValidAuthentication t emptySession)"
proof -
  assume "0 \<le> t"
  then have "0 \<le> t div 1000"
    by (simp add: pos_imp_zdiv_nonneg_iff)
  then show ?thesis
    by (simp add: hasValidAuthentication_def emptySession_def)
qed

lemma fetchFailure_fetchAndUpload:
  assumes "fetchFailure w s"
  shows "fetchAndUpload hp w s =
     (Inr (), emptySession, snd (snd (getGlucoseMeasurements w s)))"
    and "calls (snd (snd (getGlucoseMeasurements w s))) =
      GetConnections (fst (getLluAuthHeaders s))
        # (case fst (getLibreLinkUpConnection w s) of
             None \<Rightarrow> []
           | Some cid \<Rightarrow> [GetGraph cid (fst (getLluAuthHeaders s))])"
proof -
  let ?h = "fst (getLluAuthHeaders s)"
  have both: "fetchAndUpload hp w s = (Inr (), emptySession, snd (snd (getGlucoseMeasurements w s)))
    \<and> calls (snd (snd (getGlucoseMeasurements w s))) =
      GetConnections ?h
        # (case fst (getLibreLinkUpConnection w s) of None \<Rightarrow> [] | Some cid \<Rightarrow> [GetGraph cid ?h])"
  proof (cases "connectionsReply w ?h = Failed")
    case True
    note g = getGlucoseMeasurements_connections_failed [OF True]
    show ?thesis
      using fetchAndUpload_None [OF g(1), of hp] g(2,3) failed_getLibreLinkUpConnection [OF True]
      by simp
  next
    case False
    with assms obtain cid where cid: "fst (getLibreLinkUpConnection w s) = Some cid"
      "cid \<noteq> ''''" "graphReply w cid ?h = Failed"
      by (auto simp add: fetchFailure_def Let_def split: option.splits)
    note g = getGlucoseMeasurements_graph [OF False cid(1,2)]
    have none: "fst (getGlucoseMeasurements w s) = None"
      using g(1) cid(3) by simp
    show ?thesis
      using fetchAndUpload_None [OF none, of hp] g(2,3) cid by simp
  qed
  from both show "fetchAndUpload hp w s =
     (Inr (), emptySession, snd (snd (getGlucoseMeasurements w s)))" by blast
  from both show "calls (snd (snd (getGlucoseMeasurements w s))) =
      GetConnections (fst (getLluAuthHeaders s))
        # (case fst (getLibreLinkUpConnection w s) of
             None \<Rightarrow> []
           | Some cid \<Rightarrow> [GetGraph cid (fst (getLluAuthHeaders s))])" by blast
qed


lemma calls_authenticate:
  "calls (snd (snd (authenticate w s))) =
     (if fst (hasValidAuthentication (now w) s) then [] else [PostLogin])"
proof -
  obtain v ev0 where v: "hasValidAuthentication (now w) s = (v, ev0)"
    by (cases "hasValidAuthentication (now w) s")
  obtain t s2 ev1 where l: "login w (deleteAccountId (deleteAuthTicket s)) = (t, s2, ev1)"
    by (cases "login w (deleteAccountId (deleteAuthTicket s))")
  have ev0: "calls ev0 = []"
    using calls_hasValidAuthentication [of "now w" s] by (simp add: v)
  have ev1: "calls ev1 = [PostLogin]"
    using calls_login [of w "deleteAccountId (deleteAuthTicket s)"] by (simp add: l)
  show ?thesis
    by (simp add: authenticate_def v l Let_def calls_append ev0 ev1 split: option.splits)
qed


lemma authenticate_no_fetch:
  "filter isFetchOrUpload (calls (snd (snd (authenticate w s)))) = []"
  by (simp add: calls_authenticate)








section \<open>Properties\<close>

text \<open>
  C1. With a watermark \<open>le\<close> fetched from Nightscout, the output is the current reading if
  its timestamp is strictly after the watermark's, followed by exactly the graph points
  whose timestamp is strictly after it, in their order. So a reading is in the output if
  and only if its timestamp is greater than the watermark's; an equal timestamp is left
  out. The instance after the theorem has the watermark at 100 and readings at 90, 100
  and 150: only the reading at 150 is emitted.
\<close>

theorem createFormattedMeasurements_watermark:
  assumes "\<not> allData (readConfig w)" and "lastEntry w = Reply (Some le)"
  shows "\<exists>out. fst (createFormattedMeasurements hp w g) = Inr out
     \<and> out =
        (if date le < getUtcDateFromString hp (FactoryTimestamp (glucoseMeasurement (connection g)))
         then [\<lparr>date = getUtcDateFromString hp (FactoryTimestamp (glucoseMeasurement (connection g))),
                direction = Some (mapTrendArrow hp (TrendArrow (glucoseMeasurement (connection g)))),
                sgv = ValueInMgPerDl (glucoseMeasurement (connection g))\<rparr>]
         else [])
        @ map (\<lambda>e. \<lparr>date = getUtcDateFromString hp (FactoryTimestamp e), direction = None,
                     sgv = ValueInMgPerDl e\<rparr>)
            (filter (\<lambda>e. date le < getUtcDateFromString hp (FactoryTimestamp e)) (graphData g))
     \<and> (\<lparr>date = getUtcDateFromString hp (FactoryTimestamp (glucoseMeasurement (connection g))),
          direction = Some (mapTrendArrow hp (TrendArrow (glucoseMeasurement (connection g)))),
          sgv = ValueInMgPerDl (glucoseMeasurement (connection g))\<rparr> \<in> set out
         \<longleftrightarrow> date le < getUtcDateFromString hp (FactoryTimestamp (glucoseMeasurement (connection g))))
     \<and> (\<forall>e \<in> set (graphData g).
          \<lparr>date = getUtcDateFromString hp (FactoryTimestamp e), direction = None,
           sgv = ValueInMgPerDl e\<rparr> \<in> set out
          \<longleftrightarrow> date le < getUtcDateFromString hp (FactoryTimestamp e))"
  using assms
  by (auto simp add: createFormattedMeasurements_def formatWith_eq isNewer_def)

theorem createFormattedMeasurements_watermark_witness:
  "\<not> allData (readConfig exampleWorld)
   \<and> lastEntry exampleWorld = Reply (Some \<lparr>date = 100, direction = None, sgv = 110\<rparr>)
   \<and> map (getUtcDateFromString exampleHelpers \<circ> FactoryTimestamp)
        (glucoseMeasurement (connection exampleGraph) # graphData exampleGraph) = [150, 90, 100]
   \<and> fst (createFormattedMeasurements exampleHelpers exampleWorld exampleGraph)
       = Inr [\<lparr>date = 150, direction = Some ''Flat'', sgv = 120\<rparr>]"
  using createFormattedMeasurements_watermark
    [of exampleWorld "\<lparr>date = 100, direction = None, sgv = 110\<rparr>" exampleHelpers exampleGraph]
  by (simp add: exampleWorld_def exampleGraph_def exampleHelpers_def exampleUtc_def
        exampleArrow_def item_def patient_def)

text \<open>
  C2. Without a watermark (the all-data flag is set, or Nightscout has no last entry)
  every fetched reading is emitted: the current measurement first, with a trend
  direction, then every graph point in the given order, each without a direction. With
  the all-data flag the last entry is not requested.
\<close>

theorem createFormattedMeasurements_no_watermark:
  assumes "allData (readConfig w) \<or> lastEntry w = Reply None"
  shows "fst (createFormattedMeasurements hp w g) =
     Inr (\<lparr>date = getUtcDateFromString hp (FactoryTimestamp (glucoseMeasurement (connection g))),
           direction = Some (mapTrendArrow hp (TrendArrow (glucoseMeasurement (connection g)))),
           sgv = ValueInMgPerDl (glucoseMeasurement (connection g))\<rparr>
          # map (\<lambda>e. \<lparr>date = getUtcDateFromString hp (FactoryTimestamp e), direction = None,
                       sgv = ValueInMgPerDl e\<rparr>) (graphData g))
     \<and> (allData (readConfig w) \<longrightarrow> snd (createFormattedMeasurements hp w g) = [])"
  using assms
  by (auto simp add: createFormattedMeasurements_def formatWith_eq isNewer_def)

theorem createFormattedMeasurements_no_watermark_witness:
  "(allData (readConfig (exampleWorld\<lparr>lastEntry := Reply None\<rparr>))
      \<or> lastEntry (exampleWorld\<lparr>lastEntry := Reply None\<rparr>) = Reply None)
   \<and> fst (createFormattedMeasurements exampleHelpers (exampleWorld\<lparr>lastEntry := Reply None\<rparr>)
          exampleGraph)
       = Inr [\<lparr>date = 150, direction = Some ''Flat'', sgv = 120\<rparr>,
              \<lparr>date = 90, direction = None, sgv = 100\<rparr>,
              \<lparr>date = 100, direction = None, sgv = 110\<rparr>]"
  using createFormattedMeasurements_no_watermark
    [of "exampleWorld\<lparr>lastEntry := Reply None\<rparr>" exampleHelpers exampleGraph]
  by (simp add: exampleWorld_def exampleGraph_def exampleHelpers_def exampleUtc_def
        exampleArrow_def item_def patient_def)

text \<open>
  C3. When the connections request answers with the list \<open>cs\<close>: an empty list gives no
  patient; a single connection is selected whatever the configuration says; with several
  connections and no configured id the first one is selected; with several connections
  and a configured id, the connection with that id is selected if there is one, and
  otherwise resolution gives no patient and the cycle sends nothing after the connections
  request: no graph fetch, no watermark request, no upload.
\<close>

theorem getLibreLinkUpConnection_policy:
  assumes "connectionsReply w (fst (getLluAuthHeaders s)) = Reply cs"
  shows "(cs = [] \<longrightarrow> fst (getLibreLinkUpConnection w s) = None)
     \<and> (length cs = 1 \<longrightarrow> fst (getLibreLinkUpConnection w s) = Some (patientId (hd cs)))
     \<and> (1 < length cs
          \<and> (linkUpConnection (readConfig w) = None \<or> linkUpConnection (readConfig w) = Some '''')
          \<longrightarrow> fst (getLibreLinkUpConnection w s) = Some (patientId (hd cs)))
     \<and> (\<forall>t. 1 < length cs \<and> linkUpConnection (readConfig w) = Some t \<and> t \<noteq> '''' \<longrightarrow>
          (t \<in> patientId ` set cs \<longrightarrow> fst (getLibreLinkUpConnection w s) = Some t)
          \<and> (t \<notin> patientId ` set cs \<longrightarrow>
                fst (getLibreLinkUpConnection w s) = None
                \<and> (\<forall>hp s0 ev. authenticate w s0 = (True, s, ev) \<longrightarrow>
                      calls (events_of (main hp w s0)) =
                        calls ev @ [GetConnections (fst (getLluAuthHeaders s))]
                      \<and> filter isFetchOrUpload (calls (events_of (main hp w s0))) = [])))"
proof -
  note r = getLibreLinkUpConnection_result [OF assms]
  have nf: "connectionsReply w (fst (getLluAuthHeaders s)) \<noteq> Failed"
    using assms by simp
  have cycle: "calls (events_of (main hp w s0)) = calls ev @ [GetConnections (fst (getLluAuthHeaders s))]
      \<and> filter isFetchOrUpload (calls (events_of (main hp w s0))) = []"
    if none: "fst (getLibreLinkUpConnection w s) = None" and au: "authenticate w s0 = (True, s, ev)"
    for hp s0 ev
  proof -
    have n2: "fst (getLibreLinkUpConnection w s) = None \<or> fst (getLibreLinkUpConnection w s) = Some ''''"
      using none by simp
    note g = getGlucoseMeasurements_no_patient [OF nf n2]
    note fu = fetchAndUpload_None [OF g(1), of hp]
    have c: "calls (events_of (main hp w s0)) = calls ev @ [GetConnections (fst (getLluAuthHeaders s))]"
      by (simp add: main_authenticated [OF au] fu g(3) events_of_def calls_append)
    have "filter isFetchOrUpload (calls ev) = []"
      using authenticate_no_fetch [of w s0] by (simp add: au)
    with c show ?thesis by simp
  qed
  have a: "cs = [] \<longrightarrow> fst (getLibreLinkUpConnection w s) = None"
    by (simp add: r)
  have b: "length cs = 1 \<longrightarrow> fst (getLibreLinkUpConnection w s) = Some (patientId (hd cs))"
    by (auto simp add: r)
  have c: "1 < length cs
          \<and> (linkUpConnection (readConfig w) = None \<or> linkUpConnection (readConfig w) = Some '''')
          \<longrightarrow> fst (getLibreLinkUpConnection w s) = Some (patientId (hd cs))"
    by (auto simp add: r)
  have d: "fst (getLibreLinkUpConnection w s) = Some t"
    if "1 < length cs" "linkUpConnection (readConfig w) = Some t" "t \<noteq> ''''"
      "t \<in> patientId ` set cs" for t
    using that by (auto simp add: r)
  have e: "fst (getLibreLinkUpConnection w s) = None"
    if "1 < length cs" "linkUpConnection (readConfig w) = Some t" "t \<noteq> ''''"
      "t \<notin> patientId ` set cs" for t
    using that by (auto simp add: r)
  show ?thesis
    using a b c d e cycle by blast
qed

theorem getLibreLinkUpConnection_policy_witness:
  "connectionsReply noConnectionsWorld (fst (getLluAuthHeaders exampleSession)) = Reply []
   \<and> fst (getLibreLinkUpConnection noConnectionsWorld exampleSession) = None
   \<and> connectionsReply otherIdWorld (fst (getLluAuthHeaders exampleSession))
        = Reply [patient ''p1'' (item ''t150'' 120 (Some 3))]
   \<and> linkUpConnection (readConfig otherIdWorld) = Some ''p9''
   \<and> fst (getLibreLinkUpConnection otherIdWorld exampleSession) = Some ''p1''
   \<and> connectionsReply twoPatientsWorld (fst (getLluAuthHeaders exampleSession)) = Reply twoPatients
   \<and> linkUpConnection (readConfig twoPatientsWorld) = None
   \<and> fst (getLibreLinkUpConnection twoPatientsWorld exampleSession) = Some ''p1''
   \<and> connectionsReply matchedWorld (fst (getLluAuthHeaders exampleSession)) = Reply twoPatients
   \<and> linkUpConnection (readConfig matchedWorld) = Some ''p2''
   \<and> fst (getLibreLinkUpConnection matchedWorld exampleSession) = Some ''p2''
   \<and> connectionsReply unmatchedWorld (fst (getLluAuthHeaders exampleSession)) = Reply twoPatients
   \<and> linkUpConnection (readConfig unmatchedWorld) = Some ''p9''
   \<and> fst (getLibreLinkUpConnection unmatchedWorld exampleSession) = None
   \<and> authenticate unmatchedWorld exampleSession = (True, exampleSession, [])
   \<and> calls (events_of (main exampleHelpers unmatchedWorld exampleSession)) =
        [GetConnections \<lparr>Authorization = ''Bearer tok'', account_id_hashed = ''user-1''\<rparr>]"
proof -
  note defs =
    main_def authenticate_def fetchAndUpload_def uploadToNightScout_def
    createFormattedMeasurements_def formatWith_def pushGraphEntry_def isNewer_def
    getGlucoseMeasurements_def getLibreLinkUpConnection_def logPickedUpConnection_def
    dumpConnectionData_def login_def hasValidAuthentication_def getLluAuthHeaders_def
    getAuthenticationToken_def getUserId_def updateAccountId_def deleteAccountId_def
    updateAuthTicket_def deleteAuthTicket_def session_after_def events_of_def Let_def
    exampleWorld_def exampleSession_def noConnectionsWorld_def otherIdWorld_def
    twoPatientsWorld_def matchedWorld_def unmatchedWorld_def twoPatients_def patient_def item_def
  have h: "fst (getLluAuthHeaders exampleSession)
      = \<lparr>Authorization = ''Bearer tok'', account_id_hashed = ''user-1''\<rparr>"
    by (simp add: defs)
  have r0: "connectionsReply noConnectionsWorld (fst (getLluAuthHeaders exampleSession)) = Reply []"
    by (simp add: defs)
  have r1: "connectionsReply otherIdWorld (fst (getLluAuthHeaders exampleSession))
        = Reply [patient ''p1'' (item ''t150'' 120 (Some 3))]"
    by (simp add: defs)
  have r2: "connectionsReply twoPatientsWorld (fst (getLluAuthHeaders exampleSession)) = Reply twoPatients"
    by (simp add: defs)
  have r3: "connectionsReply matchedWorld (fst (getLluAuthHeaders exampleSession)) = Reply twoPatients"
    by (simp add: defs)
  have r4: "connectionsReply unmatchedWorld (fst (getLluAuthHeaders exampleSession)) = Reply twoPatients"
    by (simp add: defs)
  have c1: "linkUpConnection (readConfig otherIdWorld) = Some ''p9''"
    and c2: "linkUpConnection (readConfig twoPatientsWorld) = None"
    and c3: "linkUpConnection (readConfig matchedWorld) = Some ''p2''"
    and c4: "linkUpConnection (readConfig unmatchedWorld) = Some ''p9''"
    by (simp_all add: defs)
  have two: "1 < length twoPatients" "''p2'' \<in> patientId ` set twoPatients"
    "''p9'' \<notin> patientId ` set twoPatients" "patientId (hd twoPatients) = ''p1''"
    by (simp_all add: twoPatients_def patient_def)
  have au: "authenticate unmatchedWorld exampleSession = (True, exampleSession, [])"
    by (simp add: defs)
  have w0: "fst (getLibreLinkUpConnection noConnectionsWorld exampleSession) = None"
    using getLibreLinkUpConnection_policy [OF r0] by simp
  have w1: "fst (getLibreLinkUpConnection otherIdWorld exampleSession) = Some ''p1''"
    using getLibreLinkUpConnection_policy [OF r1] by (simp add: patient_def)
  have w2: "fst (getLibreLinkUpConnection twoPatientsWorld exampleSession) = Some ''p1''"
    using getLibreLinkUpConnection_policy [OF r2] two c2 by simp
  have w3: "fst (getLibreLinkUpConnection matchedWorld exampleSession) = Some ''p2''"
    using getLibreLinkUpConnection_policy [OF r3] two c3 by simp
  have w4: "fst (getLibreLinkUpConnection unmatchedWorld exampleSession) = None
      \<and> calls (events_of (main exampleHelpers unmatchedWorld exampleSession)) =
        calls [] @ [GetConnections (fst (getLluAuthHeaders exampleSession))]"
    using getLibreLinkUpConnection_policy [OF r4] two c4 au by simp
  show ?thesis
    using r0 r1 r2 r3 r4 c1 c2 c3 c4 au w0 w1 w2 w3 w4 by (simp add: h)
qed

text \<open>
  C4, as amended. In a cycle that is authenticated (the authentication block lets it go
  on, with session \<open>s1\<close>): when a request of the fetch stage fails, the cycle ends with
  the session cache empty, so that no later clock value finds it valid, and each request
  was sent once, none after the one that failed. When the connections request succeeds
  and resolution finds no patient, the cycle ends after that request with the session
  cache as the authentication block left it.
\<close>

theorem request_failure_clears_session:
  assumes "authenticate w s = (True, s1, ev1)"
  shows "(fetchFailure w s1 \<longrightarrow>
            fst (main hp w s) = Inr ()
            \<and> session_after (main hp w s) = emptySession
            \<and> (\<forall>t. 0 \<le> t \<longrightarrow> \<not> fst (hasValidAuthentication t (session_after (main hp w s))))
            \<and> calls (events_of (main hp w s)) =
                calls ev1 @ GetConnections (fst (getLluAuthHeaders s1))
                  # (case fst (getLibreLinkUpConnection w s1) of
                       None \<Rightarrow> []
                     | Some cid \<Rightarrow> [GetGraph cid (fst (getLluAuthHeaders s1))]))
     \<and> (connectionsReply w (fst (getLluAuthHeaders s1)) \<noteq> Failed
          \<and> fst (getLibreLinkUpConnection w s1) = None \<longrightarrow>
            fst (main hp w s) = Inr ()
            \<and> session_after (main hp w s) = s1
            \<and> calls (events_of (main hp w s)) =
                calls ev1 @ [GetConnections (fst (getLluAuthHeaders s1))])"
proof (intro conjI impI)
  assume f: "fetchFailure w s1"
  note m = main_authenticated [OF assms, of hp]
  note fu = fetchFailure_fetchAndUpload [OF f]
  show "fst (main hp w s) = Inr ()"
    by (simp add: m fu(1))
  show e: "session_after (main hp w s) = emptySession"
    by (simp add: m fu(1) session_after_def)
  show "\<forall>t. 0 \<le> t \<longrightarrow> \<not> fst (hasValidAuthentication t (session_after (main hp w s)))"
    by (simp add: e not_valid_emptySession)
  show "calls (events_of (main hp w s)) =
      calls ev1 @ GetConnections (fst (getLluAuthHeaders s1))
        # (case fst (getLibreLinkUpConnection w s1) of
             None \<Rightarrow> []
           | Some cid \<Rightarrow> [GetGraph cid (fst (getLluAuthHeaders s1))])"
    by (simp add: m fu events_of_def calls_append)
next
  assume n: "connectionsReply w (fst (getLluAuthHeaders s1)) \<noteq> Failed
    \<and> fst (getLibreLinkUpConnection w s1) = None"
  then have n1: "connectionsReply w (fst (getLluAuthHeaders s1)) \<noteq> Failed"
    and n2: "fst (getLibreLinkUpConnection w s1) = None \<or> fst (getLibreLinkUpConnection w s1) = Some ''''"
    by simp_all
  note m = main_authenticated [OF assms, of hp]
  note g = getGlucoseMeasurements_no_patient [OF n1 n2]
  note fu = fetchAndUpload_None [OF g(1), of hp]
  show "fst (main hp w s) = Inr ()"
    by (simp add: m fu)
  show "session_after (main hp w s) = s1"
    by (simp add: m fu g(2) session_after_def)
  show "calls (events_of (main hp w s)) = calls ev1 @ [GetConnections (fst (getLluAuthHeaders s1))]"
    by (simp add: m fu g(3) events_of_def calls_append)
qed

theorem no_patient_keeps_session_counterexample:
  "fst (authenticate noConnectionsWorld exampleSession)
   \<and> fst (getLibreLinkUpConnection noConnectionsWorld exampleSession) = None
   \<and> session_after (main exampleHelpers noConnectionsWorld exampleSession) = exampleSession
   \<and> fst (authenticate unmatchedWorld exampleSession)
   \<and> fst (getLibreLinkUpConnection unmatchedWorld exampleSession) = None
   \<and> session_after (main exampleHelpers unmatchedWorld exampleSession) = exampleSession
   \<and> exampleSession \<noteq> emptySession
   \<and> token (authTicket exampleSession) \<noteq> ''''
   \<and> userId exampleSession \<noteq> ''''"
proof -
  note defs =
    main_def authenticate_def fetchAndUpload_def uploadToNightScout_def
    createFormattedMeasurements_def formatWith_def pushGraphEntry_def isNewer_def
    getGlucoseMeasurements_def getLibreLinkUpConnection_def logPickedUpConnection_def
    dumpConnectionData_def login_def hasValidAuthentication_def getLluAuthHeaders_def
    getAuthenticationToken_def getUserId_def updateAccountId_def deleteAccountId_def
    updateAuthTicket_def deleteAuthTicket_def session_after_def events_of_def Let_def
    exampleWorld_def exampleSession_def emptySession_def noConnectionsWorld_def
    unmatchedWorld_def twoPatients_def patient_def item_def
  show ?thesis
    by (simp add: defs)
qed

theorem request_failure_clears_session_witness:
  "authenticate failingGraphWorld exampleSession = (True, exampleSession, [])
   \<and> fetchFailure failingGraphWorld exampleSession
   \<and> session_after (main exampleHelpers failingGraphWorld exampleSession) = emptySession
   \<and> calls (events_of (main exampleHelpers failingGraphWorld exampleSession)) =
        [GetConnections \<lparr>Authorization = ''Bearer tok'', account_id_hashed = ''user-1''\<rparr>,
         GetGraph ''p1'' \<lparr>Authorization = ''Bearer tok'', account_id_hashed = ''user-1''\<rparr>]
   \<and> authenticate failingConnectionsWorld exampleSession = (True, exampleSession, [])
   \<and> fetchFailure failingConnectionsWorld exampleSession
   \<and> session_after (main exampleHelpers failingConnectionsWorld exampleSession) = emptySession
   \<and> calls (events_of (main exampleHelpers failingConnectionsWorld exampleSession)) =
        [GetConnections \<lparr>Authorization = ''Bearer tok'', account_id_hashed = ''user-1''\<rparr>]
   \<and> authenticate noConnectionsWorld exampleSession = (True, exampleSession, [])
   \<and> connectionsReply noConnectionsWorld (fst (getLluAuthHeaders exampleSession)) \<noteq> Failed
   \<and> fst (getLibreLinkUpConnection noConnectionsWorld exampleSession) = None
   \<and> session_after (main exampleHelpers noConnectionsWorld exampleSession) = exampleSession
   \<and> calls (events_of (main exampleHelpers noConnectionsWorld exampleSession)) =
        [GetConnections \<lparr>Authorization = ''Bearer tok'', account_id_hashed = ''user-1''\<rparr>]"
proof -
  note defs =
    main_def authenticate_def fetchAndUpload_def uploadToNightScout_def
    createFormattedMeasurements_def formatWith_def pushGraphEntry_def isNewer_def
    getGlucoseMeasurements_def getLibreLinkUpConnection_def logPickedUpConnection_def
    dumpConnectionData_def login_def hasValidAuthentication_def getLluAuthHeaders_def
    getAuthenticationToken_def getUserId_def updateAccountId_def deleteAccountId_def
    updateAuthTicket_def deleteAuthTicket_def session_after_def events_of_def Let_def
    exampleWorld_def exampleSession_def emptySession_def failingGraphWorld_def
    failingConnectionsWorld_def noConnectionsWorld_def patient_def item_def
  have a1: "authenticate failingGraphWorld exampleSession = (True, exampleSession, [])"
    by (simp add: defs)
  have a2: "authenticate failingConnectionsWorld exampleSession = (True, exampleSession, [])"
    by (simp add: defs)
  have a3: "authenticate noConnectionsWorld exampleSession = (True, exampleSession, [])"
    by (simp add: defs)
  have f1: "fetchFailure failingGraphWorld exampleSession"
    by (simp add: fetchFailure_def defs)
  have f2: "fetchFailure failingConnectionsWorld exampleSession"
    by (simp add: fetchFailure_def defs)
  have n3: "connectionsReply noConnectionsWorld (fst (getLluAuthHeaders exampleSession)) \<noteq> Failed
      \<and> fst (getLibreLinkUpConnection noConnectionsWorld exampleSession) = None"
    by (simp add: defs)
  have h: "fst (getLluAuthHeaders exampleSession)
      = \<lparr>Authorization = ''Bearer tok'', account_id_hashed = ''user-1''\<rparr>"
    by (simp add: defs)
  have r1: "fst (getLibreLinkUpConnection failingGraphWorld exampleSession) = Some ''p1''"
    by (simp add: defs)
  have r2: "fst (getLibreLinkUpConnection failingConnectionsWorld exampleSession) = None"
    by (simp add: defs)
  show ?thesis
    using request_failure_clears_session [OF a1, of exampleHelpers] request_failure_clears_session [OF a2, of exampleHelpers] request_failure_clears_session [OF a3, of exampleHelpers]
      a1 a2 a3 f1 f2 n3 h r1 r2
    by simp
qed




text \<open>
  C6. For every login response: a non-zero status gives no ticket and leaves the session
  as it was; so does a region redirect (the redirect flag with a region to switch to).
  Otherwise, for a response that carries a user, the user id becomes the account
  identifier and the ticket of the response is returned.
\<close>

theorem login_response:
  assumes "loginReply w = Reply response"
  shows "(status response \<noteq> 0 \<longrightarrow>
            fst (login w s) = None \<and> fst (snd (login w s)) = s)
     \<and> (\<forall>d r. status response = 0 \<and> data response = Some d \<and> redirect d \<and> region d = Some r
               \<and> r \<noteq> '''' \<longrightarrow>
            fst (login w s) = None \<and> fst (snd (login w s)) = s)
     \<and> (\<forall>d u. status response = 0 \<and> data response = Some d
               \<and> \<not> (redirect d \<and> region d \<noteq> None \<and> region d \<noteq> Some '''')
               \<and> user_id d = Some u \<longrightarrow>
            fst (login w s) = authTicket_data d
            \<and> userId (fst (snd (login w s))) = u
            \<and> authTicket (fst (snd (login w s))) = authTicket s)"
  using assms by (auto simp add: login_def updateAccountId_def)

theorem login_response_witness:
  "loginReply exampleWorld = Reply \<lparr>status = 0, data = Some \<lparr>redirect = False, region = None,
         user_id = Some ''user-1'',
         authTicket_data = Some \<lparr>duration = 3600, expires = Some 1700003600, token = ''tok''\<rparr>\<rparr>\<rparr>
   \<and> fst (login exampleWorld emptySession)
        = Some \<lparr>duration = 3600, expires = Some 1700003600, token = ''tok''\<rparr>
   \<and> userId (fst (snd (login exampleWorld emptySession))) = ''user-1''
   \<and> fst (login (exampleWorld\<lparr>loginReply := Reply \<lparr>status = 2, data = None\<rparr>\<rparr>) emptySession) = None
   \<and> fst (snd (login (exampleWorld\<lparr>loginReply := Reply \<lparr>status = 2, data = None\<rparr>\<rparr>) emptySession))
        = emptySession
   \<and> fst (login (exampleWorld\<lparr>loginReply := Reply \<lparr>status = 0, data = Some \<lparr>redirect = True,
          region = Some ''fr'', user_id = None, authTicket_data = None\<rparr>\<rparr>\<rparr>) emptySession) = None
   \<and> fst (snd (login (exampleWorld\<lparr>loginReply := Reply \<lparr>status = 0, data = Some \<lparr>redirect = True,
          region = Some ''fr'', user_id = None, authTicket_data = None\<rparr>\<rparr>\<rparr>) emptySession))
        = emptySession"
  using login_response [of exampleWorld "\<lparr>status = 0, data = Some \<lparr>redirect = False, region = None,
         user_id = Some ''user-1'',
         authTicket_data = Some \<lparr>duration = 3600, expires = Some 1700003600, token = ''tok''\<rparr>\<rparr>\<rparr>"
         emptySession]
    login_response [of "exampleWorld\<lparr>loginReply := Reply \<lparr>status = 2, data = None\<rparr>\<rparr>"
         "\<lparr>status = 2, data = None\<rparr>" emptySession]
    login_response [of "exampleWorld\<lparr>loginReply := Reply \<lparr>status = 0, data = Some \<lparr>redirect = True,
          region = Some ''fr'', user_id = None, authTicket_data = None\<rparr>\<rparr>\<rparr>"
         "\<lparr>status = 0, data = Some \<lparr>redirect = True,
          region = Some ''fr'', user_id = None, authTicket_data = None\<rparr>\<rparr>" emptySession]
  by (simp add: exampleWorld_def)

text \<open>
  C7. When the formatted list is empty the upload stage returns without any call of
  \<^verbatim>\<open>uploadEntries\<close>; when it is not empty there is exactly one such call, and it
  carries the whole list.
\<close>

theorem uploadToNightScout_upload_calls:
  assumes "fst (createFormattedMeasurements hp w g) = Inr es"
  shows "fst (uploadToNightScout hp w g) = Inr ()
     \<and> (es = [] \<longrightarrow> filter isUploadEntries (calls (snd (uploadToNightScout hp w g))) = [])
     \<and> (es \<noteq> [] \<longrightarrow>
          filter isUploadEntries (calls (snd (uploadToNightScout hp w g))) = [UploadEntries es])"
proof -
  obtain ev where c: "createFormattedMeasurements hp w g = (Inr es, ev)"
    using assms by (cases "createFormattedMeasurements hp w g") simp
  have ev: "filter isUploadEntries (calls ev) = []"
    using createFormattedMeasurements_calls [of hp w g] by (simp add: c)
  show ?thesis
    by (simp add: uploadToNightScout_def c calls_append ev)
qed

theorem uploadToNightScout_upload_calls_witness:
  "fst (createFormattedMeasurements exampleHelpers exampleWorld exampleGraph)
      = Inr [\<lparr>date = 150, direction = Some ''Flat'', sgv = 120\<rparr>]
   \<and> calls (snd (uploadToNightScout exampleHelpers exampleWorld exampleGraph))
      = [LastEntry, UploadEntries [\<lparr>date = 150, direction = Some ''Flat'', sgv = 120\<rparr>]]
   \<and> fst (createFormattedMeasurements exampleHelpers
        (exampleWorld\<lparr>lastEntry := Reply (Some \<lparr>date = 150, direction = None, sgv = 120\<rparr>)\<rparr>)
        exampleGraph) = Inr []
   \<and> calls (snd (uploadToNightScout exampleHelpers
        (exampleWorld\<lparr>lastEntry := Reply (Some \<lparr>date = 150, direction = None, sgv = 120\<rparr>)\<rparr>)
        exampleGraph)) = [LastEntry]"
  using uploadToNightScout_upload_calls [of exampleHelpers exampleWorld exampleGraph
              "[\<lparr>date = 150, direction = Some ''Flat'', sgv = 120\<rparr>]"]
    uploadToNightScout_upload_calls [of exampleHelpers
          "exampleWorld\<lparr>lastEntry := Reply (Some \<lparr>date = 150, direction = None, sgv = 120\<rparr>)\<rparr>"
          exampleGraph "[]"]
  by (simp add: uploadToNightScout_def createFormattedMeasurements_def formatWith_def
        pushGraphEntry_def isNewer_def Let_def
        exampleWorld_def exampleGraph_def exampleHelpers_def exampleUtc_def
        exampleArrow_def item_def patient_def)

text \<open>
  C8. In an authenticated cycle that fetches graph data \<open>g\<close> and whose upload of the
  formatted entries rejects, the failure is caught and logged, \<^verbatim>\<open>main\<close> does not reject,
  and the session cache after the cycle is the one with which the fetch stage was
  entered: auth ticket and account id are untouched.
\<close>

theorem upload_failure_keeps_session:
  assumes "authenticate w s = (True, s1, ev1)"
    and "fst (getGlucoseMeasurements w s1) = Some g"
    and "fst (createFormattedMeasurements hp w g) = Inr es"
    and "es \<noteq> []"
    and "\<not> uploadEntries w es"
  shows "fst (main hp w s) = Inr ()
     \<and> fst (snd (getGlucoseMeasurements w s1)) = s1
     \<and> session_after (main hp w s) = s1
     \<and> authTicket (session_after (main hp w s)) = authTicket s1
     \<and> userId (session_after (main hp w s)) = userId s1
     \<and> events_of (main hp w s) =
         ev1 @ snd (snd (getGlucoseMeasurements w s1)) @ snd (createFormattedMeasurements hp w g)
           @ [Log Info ''Uploading '', Call (UploadEntries es),
              Log Error ''Upload to NightScout failed'']"
proof -
  obtain ev where c: "createFormattedMeasurements hp w g = (Inr es, ev)"
    using assms(3) by (cases "createFormattedMeasurements hp w g") simp
  have u: "uploadToNightScout hp w g =
      (Inr (), ev @ [Log Info ''Uploading '', Call (UploadEntries es),
                     Log Error ''Upload to NightScout failed''])"
    using assms(4,5) by (simp add: uploadToNightScout_def c)
  note m = main_authenticated [OF assms(1), of hp]
  note fu = fetchAndUpload_Some [OF assms(2), of hp]
  note g = getGlucoseMeasurements_Some_session(1) [OF assms(2)]
  show ?thesis
    by (simp add: m fu u g c session_after_def events_of_def)
qed

theorem upload_failure_keeps_session_witness:
  "authenticate failingUploadWorld exampleSession = (True, exampleSession, [])
   \<and> fst (getGlucoseMeasurements failingUploadWorld exampleSession) = Some exampleGraph
   \<and> fst (createFormattedMeasurements exampleHelpers failingUploadWorld exampleGraph)
        = Inr [\<lparr>date = 150, direction = Some ''Flat'', sgv = 120\<rparr>]
   \<and> \<not> uploadEntries failingUploadWorld [\<lparr>date = 150, direction = Some ''Flat'', sgv = 120\<rparr>]
   \<and> session_after (main exampleHelpers failingUploadWorld exampleSession) = exampleSession
   \<and> fst (main exampleHelpers failingUploadWorld exampleSession) = Inr ()"
proof -
  note defs =
    main_def authenticate_def fetchAndUpload_def uploadToNightScout_def
    createFormattedMeasurements_def formatWith_def pushGraphEntry_def isNewer_def
    getGlucoseMeasurements_def getLibreLinkUpConnection_def logPickedUpConnection_def
    dumpConnectionData_def login_def hasValidAuthentication_def getLluAuthHeaders_def
    getAuthenticationToken_def getUserId_def updateAccountId_def deleteAccountId_def
    updateAuthTicket_def deleteAuthTicket_def session_after_def events_of_def Let_def
    exampleWorld_def exampleSession_def exampleGraph_def exampleHelpers_def
    exampleUtc_def exampleArrow_def failingUploadWorld_def patient_def item_def
  have a: "authenticate failingUploadWorld exampleSession = (True, exampleSession, [])"
    by (simp add: defs)
  have b: "fst (getGlucoseMeasurements failingUploadWorld exampleSession) = Some exampleGraph"
    by (simp add: defs)
  have c: "fst (createFormattedMeasurements exampleHelpers failingUploadWorld exampleGraph)
        = Inr [\<lparr>date = 150, direction = Some ''Flat'', sgv = 120\<rparr>]"
    by (simp add: defs)
  have d: "[\<lparr>date = 150, direction = Some ''Flat'', sgv = 120\<rparr>] \<noteq> []"
    by simp
  have e: "\<not> uploadEntries failingUploadWorld [\<lparr>date = 150, direction = Some ''Flat'', sgv = 120\<rparr>]"
    by (simp add: defs)
  show ?thesis
    using upload_failure_keeps_session [OF a b c d e] a b c e by simp
qed

text \<open>
  C9. For a stored ticket whose expiry is defined and any clock value, the validity
  check answers true exactly when the current time in whole seconds is strictly below the
  stored expiry.
\<close>

theorem hasValidAuthentication_iff:
  assumes "expires (authTicket s) = Some e"
  shows "fst (hasValidAuthentication t s) \<longleftrightarrow> t div 1000 < e"
  using assms by (simp add: hasValidAuthentication_def)

theorem hasValidAuthentication_iff_witness:
  "expires (authTicket \<lparr>authTicket = \<lparr>duration = 60, expires = Some 1700000000, token = ''tok''\<rparr>,
       userId = ''u''\<rparr>) = Some 1700000000
   \<and> fst (hasValidAuthentication 1699999999999
       \<lparr>authTicket = \<lparr>duration = 60, expires = Some 1700000000, token = ''tok''\<rparr>, userId = ''u''\<rparr>)
   \<and> \<not> fst (hasValidAuthentication 1700000000000
       \<lparr>authTicket = \<lparr>duration = 60, expires = Some 1700000000, token = ''tok''\<rparr>, userId = ''u''\<rparr>)"
  using hasValidAuthentication_iff
    [of "\<lparr>authTicket = \<lparr>duration = 60, expires = Some 1700000000, token = ''tok''\<rparr>, userId = ''u''\<rparr>"
        1700000000 1699999999999]
    hasValidAuthentication_iff
    [of "\<lparr>authTicket = \<lparr>duration = 60, expires = Some 1700000000, token = ''tok''\<rparr>, userId = ''u''\<rparr>"
        1700000000 1700000000000]
  by simp

text \<open>
  C10. Readings are compared with the watermark only, never with each other: when a graph
  point has the timestamp of the current measurement and that timestamp is after the
  watermark, the output holds both an entry with a trend direction and an entry without
  one for that date, so its dates are not distinct. The instance after the theorem is such
  an input.
\<close>

theorem createFormattedMeasurements_duplicate_dates:
  assumes "\<not> allData (readConfig w)" and "lastEntry w = Reply (Some le)"
    and "date le < getUtcDateFromString hp (FactoryTimestamp (glucoseMeasurement (connection g)))"
    and "e \<in> set (graphData g)"
    and "getUtcDateFromString hp (FactoryTimestamp e)
           = getUtcDateFromString hp (FactoryTimestamp (glucoseMeasurement (connection g)))"
  shows "\<exists>out. fst (createFormattedMeasurements hp w g) = Inr out
     \<and> \<lparr>date = getUtcDateFromString hp (FactoryTimestamp e),
         direction = Some (mapTrendArrow hp (TrendArrow (glucoseMeasurement (connection g)))),
         sgv = ValueInMgPerDl (glucoseMeasurement (connection g))\<rparr> \<in> set out
     \<and> \<lparr>date = getUtcDateFromString hp (FactoryTimestamp e), direction = None,
         sgv = ValueInMgPerDl e\<rparr> \<in> set out
     \<and> \<not> distinct (map date out)"
proof -
  let ?T = "getUtcDateFromString hp (FactoryTimestamp e)"
  let ?h = "\<lambda>e. \<lparr>date = getUtcDateFromString hp (FactoryTimestamp e), direction = None,
                  sgv = ValueInMgPerDl e\<rparr>"
  let ?new = "filter (\<lambda>e. isNewer (Some le) (getUtcDateFromString hp (FactoryTimestamp e)))
                (graphData g)"
  have e_new: "e \<in> set ?new"
    using assms(3,4,5) by (simp add: isNewer_def)
  then have "?h e \<in> set (map ?h ?new)"
    unfolding set_map by (rule imageI)
  then have hist_in: "?h e \<in> set (formatWith hp (Some le) g)"
    by (simp add: formatWith_eq)
  have cur_eq: "formatWith hp (Some le) g =
      \<lparr>date = ?T,
       direction = Some (mapTrendArrow hp (TrendArrow (glucoseMeasurement (connection g)))),
       sgv = ValueInMgPerDl (glucoseMeasurement (connection g))\<rparr> # map ?h ?new"
    using assms(3,5) by (simp add: formatWith_eq isNewer_def)
  have "date (?h e) \<in> date ` set (map ?h ?new)"
    using \<open>?h e \<in> set (map ?h ?new)\<close> by (rule imageI)
  then have T_in: "?T \<in> set (map date (map ?h ?new))"
    by (simp only: set_map Entry.select_convs)
  have "map date (formatWith hp (Some le) g) = ?T # map date (map ?h ?new)"
    by (simp only: cur_eq list.map Entry.select_convs)
  then have dup: "\<not> distinct (map date (formatWith hp (Some le) g))"
    using T_in by (simp only: distinct.simps) simp
  have out: "fst (createFormattedMeasurements hp w g) = Inr (formatWith hp (Some le) g)"
    using assms(1,2) by (simp add: createFormattedMeasurements_def)
  show ?thesis
    using out hist_in dup cur_eq by auto
qed

theorem createFormattedMeasurements_duplicate_dates_witness:
  "\<not> allData (readConfig exampleWorld)
   \<and> lastEntry exampleWorld = Reply (Some \<lparr>date = 100, direction = None, sgv = 110\<rparr>)
   \<and> fst (createFormattedMeasurements exampleHelpers exampleWorld duplicateGraph)
       = Inr [\<lparr>date = 150, direction = Some ''Flat'', sgv = 120\<rparr>,
              \<lparr>date = 150, direction = None, sgv = 120\<rparr>]"
  using createFormattedMeasurements_duplicate_dates
    [of exampleWorld "\<lparr>date = 100, direction = None, sgv = 110\<rparr>" exampleHelpers
        duplicateGraph "item ''t150'' 120 None"]
  by (simp add: createFormattedMeasurements_def formatWith_def
        pushGraphEntry_def isNewer_def Let_def duplicateGraph_def
        exampleWorld_def exampleGraph_def exampleHelpers_def exampleUtc_def
        exampleArrow_def item_def patient_def)

end
